theory Spec2Isabelle
  imports Complex_Main "HOL-Library.AList"
begin

section \<open>Python values and value equality\<close>

text \<open>
  The values that travel through the grader: the arguments and expected values of a test
  case, the value a submitted function returns, and the result dictionaries the grader
  builds. A dictionary is an association list in insertion order with string keys, as
  in JSON. A finite float is represented by its exact value. An object that is
  not plain data (an instance of a class the submission made, a NaN) is outside this
  type: handing one to the grader counts as interference, see below.
\<close>

datatype pyval =
    PNone
  | PBool bool
  | PInt int
  | PFloat real
  | PStr string
  | PList "pyval list"
  | PTuple "pyval list"
  | PDict "(string \<times> pyval) list"

text \<open>The numeric value of a bool, int or float (\<open>bool\<close> is a subclass of \<open>int\<close>).\<close>

fun num_val :: "pyval \<Rightarrow> real option" where
  "num_val (PBool b) = Some (if b then 1 else 0)"
| "num_val (PInt i) = Some (of_int i)"
| "num_val (PFloat r) = Some r"
| "num_val _ = None"

text \<open>
  Python's \<open>==\<close> on these values: numbers compare by value across bool, int and float;
  lists and tuples compare element by element and never equal each other; dictionaries
  compare as mappings (same number of keys, and every key of the left one bound to an
  equal value in the right one); everything else is unequal.
\<close>

fun py_eq :: "pyval \<Rightarrow> pyval \<Rightarrow> bool"
  and py_eq_list :: "pyval list \<Rightarrow> pyval list \<Rightarrow> bool"
  and py_eq_items :: "(string \<times> pyval) list \<Rightarrow> (string \<times> pyval) list \<Rightarrow> bool"
  and py_eq_lookup :: "string \<Rightarrow> pyval \<Rightarrow> (string \<times> pyval) list \<Rightarrow> bool"
where
  "py_eq PNone PNone = True"
| "py_eq (PStr s) (PStr t) = (s = t)"
| "py_eq (PList xs) (PList ys) = py_eq_list xs ys"
| "py_eq (PTuple xs) (PTuple ys) = py_eq_list xs ys"
| "py_eq (PDict a) (PDict b) = (length a = length b \<and> py_eq_items a b)"
| "py_eq a b = (case num_val a of None \<Rightarrow> False
                 | Some x \<Rightarrow> (case num_val b of None \<Rightarrow> False | Some y \<Rightarrow> x = y))"
| "py_eq_list [] [] = True"
| "py_eq_list (x # xs) (y # ys) = (py_eq x y \<and> py_eq_list xs ys)"
| "py_eq_list _ _ = False"
| "py_eq_items [] b = True"
| "py_eq_items ((k, v) # a) b = (py_eq_lookup k v b \<and> py_eq_items a b)"
| "py_eq_lookup k v [] = False"
| "py_eq_lookup k v ((k', v') # b) = (if k = k' then py_eq v v' else py_eq_lookup k v b)"

text \<open>\<open>d[key]\<close> on a result dictionary, as an option.\<close>

definition dict_get :: "pyval \<Rightarrow> string \<Rightarrow> pyval option" where
  "dict_get d k = (case d of PDict kvs \<Rightarrow> map_of kvs k | _ \<Rightarrow> None)"

text \<open>\<open>str(n)\<close> for a non-negative integer.\<close>

definition digit_char :: "nat \<Rightarrow> char" where
  "digit_char d = char_of (48 + d)"

fun str_nat :: "nat \<Rightarrow> string" where
  "str_nat n = (if n < 10 then [digit_char n] else str_nat (n div 10) @ [digit_char (n mod 10)])"

declare str_nat.simps [simp del]


section \<open>Exceptions\<close>

text \<open>
  An exception is seen by the grader through three things: which of the grader's
  \<open>except\<close> clauses match it, \<open>type(e).__name__\<close>, and \<open>str(e)\<close>.
  \<open>SecurityErrorK\<close> is the grader's own \<open>SecurityError\<close> (a subclass of
  \<open>Exception\<close>), \<open>ExceptionK\<close> any other instance of \<open>Exception\<close>, and
  \<open>BaseOnlyK\<close> an exception that derives from \<open>BaseException\<close> only, which
  \<open>except Exception\<close> does not catch.
\<close>

datatype exc_kind = SecurityErrorK | ExceptionK | BaseOnlyK

record pyexc =
  kind :: exc_kind
  type_name :: string
  text_of :: string

definition SecurityError :: "string \<Rightarrow> pyexc" where
  "SecurityError msg = \<lparr>kind = SecurityErrorK, type_name = ''SecurityError'', text_of = msg\<rparr>"

definition is_Exception :: "pyexc \<Rightarrow> bool" where
  "is_Exception e = (kind e \<noteq> BaseOnlyK)"


section \<open>The static vettor\<close>

text \<open>
  A syntax tree as \<open>ast.walk\<close> sees it: every node has a type and child nodes. Only the
  node types the vettor looks at are told apart; \<open>Attribute\<close> carries \<open>node.attr\<close>,
  which is a string in every tree the parser builds, and \<open>Name\<close> carries \<open>node.id\<close>.
\<close>

datatype node_type = Import | ImportFrom | Attribute string | Name string | Other

datatype node = Node node_type "node list"

text \<open>
  What \<open>ast.parse(code, mode="exec")\<close> does: it returns a tree, raises \<open>SyntaxError\<close>
  with \<open>msg\<close> and \<open>lineno\<close> (which may be \<open>None\<close>), or raises something else.
\<close>

datatype parse_result = Tree node | SyntaxErr string "nat option" | ParseFault pyexc

text \<open>
  \<open>ast.walk\<close>: breadth first, from a queue; a node is taken from the front and its
  children are put at the back.
\<close>

function walk :: "node list \<Rightarrow> node list" where
  "walk [] = []"
| "walk (Node ty cs # todo) = Node ty cs # walk (todo @ cs)"
  by pat_completeness auto
termination
  by (relation "measure (size_list size)") auto

definition denied_names :: "string list" where
  "denied_names = [''__import__'', ''eval'', ''exec'', ''open'']"

definition startswith :: "string \<Rightarrow> string \<Rightarrow> bool" where
  "startswith s p = (take (length p) s = p)"

text \<open>\<open>f"Usage of '{node.id}' is not allowed"\<close>.\<close>

definition usage_message :: "string \<Rightarrow> string" where
  "usage_message ident = ''Usage of '' @ [CHR 0x27] @ ident @ [CHR 0x27] @ '' is not allowed''"

text \<open>The three checks of the loop body, in the source's order, on one node.\<close>

fun check_node :: "node \<Rightarrow> string option" where
  "check_node (Node Import cs) = Some ''Import statements are not allowed''"
| "check_node (Node ImportFrom cs) = Some ''Import statements are not allowed''"
| "check_node (Node (Attribute attr) cs) =
     (if startswith attr ''__'' then Some ''Access to dunder attributes is not allowed''
      else None)"
| "check_node (Node (Name ident) cs) =
     (if ident \<in> set denied_names
      then Some (usage_message ident)
      else None)"
| "check_node (Node Other cs) = None"

text \<open>The \<open>for\<close> loop: the first node that fails a check raises.\<close>

fun first_violation :: "node list \<Rightarrow> string option" where
  "first_violation [] = None"
| "first_violation (n # ns) =
     (case check_node n of Some msg \<Rightarrow> Some msg | None \<Rightarrow> first_violation ns)"

definition lineno_str :: "nat option \<Rightarrow> string" where
  "lineno_str l = (case l of None \<Rightarrow> ''None'' | Some n \<Rightarrow> str_nat n)"

text \<open>\<open>_ensure_safe\<close>: \<open>Inl\<close> is the exception raised, \<open>Inr ()\<close> a normal return.\<close>

definition ensure_safe :: "(string \<Rightarrow> parse_result) \<Rightarrow> string \<Rightarrow> pyexc + unit" where
  "ensure_safe ast_parse code =
     (case ast_parse code of
        SyntaxErr msg lineno \<Rightarrow>
          Inl (SecurityError (''SyntaxError: '' @ msg @ '' (line '' @ lineno_str lineno @ '')''))
      | ParseFault e \<Rightarrow> Inl e
      | Tree tree \<Rightarrow>
          (case first_violation (walk [tree]) of
             Some msg \<Rightarrow> Inl (SecurityError msg)
           | None \<Rightarrow> Inr ()))"


section \<open>The safe execution namespace\<close>

text \<open>
  \<open>SAFE_BUILTINS\<close>: each key is bound to the host interpreter's built-in of that name,
  written \<open>HostBuiltin name\<close>.
\<close>

datatype host_obj = HostBuiltin string

definition SAFE_BUILTINS :: "(string \<times> host_obj) list" where
  "SAFE_BUILTINS =
     [
      (''abs'', HostBuiltin ''abs''),
      (''all'', HostBuiltin ''all''),
      (''any'', HostBuiltin ''any''),
      (''bool'', HostBuiltin ''bool''),
      (''bytes'', HostBuiltin ''bytes''),
      (''callable'', HostBuiltin ''callable''),
      (''chr'', HostBuiltin ''chr''),
      (''complex'', HostBuiltin ''complex''),
      (''dict'', HostBuiltin ''dict''),
      (''divmod'', HostBuiltin ''divmod''),
      (''enumerate'', HostBuiltin ''enumerate''),
      (''filter'', HostBuiltin ''filter''),
      (''float'', HostBuiltin ''float''),
      (''format'', HostBuiltin ''format''),
      (''frozenset'', HostBuiltin ''frozenset''),
      (''getattr'', HostBuiltin ''getattr''),
      (''hasattr'', HostBuiltin ''hasattr''),
      (''hash'', HostBuiltin ''hash''),
      (''hex'', HostBuiltin ''hex''),
      (''int'', HostBuiltin ''int''),
      (''isinstance'', HostBuiltin ''isinstance''),
      (''issubclass'', HostBuiltin ''issubclass''),
      (''iter'', HostBuiltin ''iter''),
      (''len'', HostBuiltin ''len''),
      (''list'', HostBuiltin ''list''),
      (''map'', HostBuiltin ''map''),
      (''max'', HostBuiltin ''max''),
      (''min'', HostBuiltin ''min''),
      (''next'', HostBuiltin ''next''),
      (''object'', HostBuiltin ''object''),
      (''oct'', HostBuiltin ''oct''),
      (''ord'', HostBuiltin ''ord''),
      (''pow'', HostBuiltin ''pow''),
      (''print'', HostBuiltin ''print''),
      (''range'', HostBuiltin ''range''),
      (''repr'', HostBuiltin ''repr''),
      (''reversed'', HostBuiltin ''reversed''),
      (''round'', HostBuiltin ''round''),
      (''set'', HostBuiltin ''set''),
      (''slice'', HostBuiltin ''slice''),
      (''sorted'', HostBuiltin ''sorted''),
      (''str'', HostBuiltin ''str''),
      (''sum'', HostBuiltin ''sum''),
      (''tuple'', HostBuiltin ''tuple''),
      (''zip'', HostBuiltin ''zip'')
     ]"

text \<open>The namespace \<open>ns\<close> handed to \<open>exec\<close>: \<open>{"__builtins__": SAFE_BUILTINS}\<close>.\<close>

type_synonym namespace = "(string \<times> (string \<times> host_obj) list) list"

definition initial_ns :: namespace where
  "initial_ns = [(''__builtins__'', SAFE_BUILTINS)]"


section \<open>What the child runs\<close>

text \<open>What the child process did, in order, besides writing to the channel.\<close>

datatype event =
    SetRLimit string int int
  | ExecCode string namespace
  | CallFn nat


section \<open>Submitted code and the runtime that runs it\<close>

text \<open>
  How a piece of submitted code can end, seen from the grader: it returns a value,
  raises an exception, takes the child process down with it (killed by the operating
  system for its CPU time or memory, for instance), never comes back, or interferes.
  \<open>Interferes\<close> stands for everything else submitted code can do inside the grader's
  own process: reach the grader's objects through frames (the queue, the list of
  outcomes, the loop variables), or hand back an object that is not plain data and whose
  methods (\<open>__eq__\<close>, \<open>__reduce__\<close>) run submitted code later. What the child does from
  then on is not decided by the grader's code; the runtime gives it.
\<close>

datatype 'a outcome = Returned 'a | Raised pyexc | Killed | Hangs | Interferes

text \<open>
  A message on the result channel, as the parent finds it: one that unpickles to a
  value, or one whose unpickling raises.
\<close>

datatype message = Readable pyval | Unreadable pyexc

text \<open>
  The run of the child process: the messages on the channel when the parent looks, what
  the child ran, and whether it exits by itself.
\<close>

record child =
  queue :: "message list"
  trace :: "event list"
  exits :: bool

text \<open>
  What \<open>out_q.put(r)\<close> comes to in the child: the message reaches the channel and
  unpickles in the parent to a value (the value as it stands when the feeder thread
  pickles it); the call raises (the queue cannot start its feeder thread under a small
  address-space limit); the call returns and nothing reaches the channel (the feeder
  fails to pickle the value and drops it); or the message is larger than the pipe takes,
  so that the child cannot exit before the parent reads.
\<close>

datatype sending = Sent pyval | PutRaises pyexc | Lost | Stuck

text \<open>
  The call \<open>fn(*args, **kwargs)\<close> of line 128, seen from the grader: how it ends, and
  the objects \<open>args\<close>, \<open>kwargs\<close> and \<open>expected\<close> of the test as they stand
  afterwards, since the call can change them in place. The first argument of a function
  is the number of the call, so that a function with state of its own is covered. A
  binding that cannot be called, or objects that cannot be unpacked, make the call raise
  \<open>TypeError\<close>.
\<close>

record call_result =
  ending :: "pyval outcome"
  args_after :: pyval
  kwargs_after :: pyval
  expected_after :: pyval

type_synonym pyfun = "nat \<Rightarrow> pyval \<Rightarrow> pyval \<Rightarrow> pyval \<Rightarrow> call_result"

text \<open>
  What the grader takes from the interpreter and the operating system for one request:
  \<open>ast.parse\<close>; \<open>exec(code, ns, ns)\<close>, which ends as above and on a normal return
  gives the names bound in \<open>ns\<close> afterwards; the value of
  \<open>round(time.time() - start, 4)\<close>; the wall-clock seconds from the start of the child
  process to its exit, for a child that exits; what a \<open>put\<close> on the channel comes to;
  and the run of a child in which submitted code interferes. All of them describe the
  child as it runs under the resource limits it has asked for.
\<close>

record runtime =
  ast_parse :: "string \<Rightarrow> parse_result"
  exec_code :: "string \<Rightarrow> namespace \<Rightarrow> (string \<rightharpoonup> pyfun) outcome"
  elapsed_rounded :: real
  wall_time :: real
  send :: "pyval \<Rightarrow> sending"
  takeover :: child

text \<open>The two fields of a \<open>Problem\<close> that the grader reads.\<close>

record problem =
  function_name :: string
  tests :: "pyval list"


section \<open>The isolated runner\<close>

text \<open>
  \<open>_limit_resources\<close>: two requests to the operating system, each of which may fail
  without notice.
\<close>

definition limit_resources :: "int \<Rightarrow> event list" where
  "limit_resources mem_limit_mb =
     (let mem_bytes = mem_limit_mb * 1024 * 1024
      in [SetRLimit ''RLIMIT_CPU'' 3 3, SetRLimit ''RLIMIT_AS'' mem_bytes mem_bytes])"

text \<open>\<open>type(v).__name__\<close>.\<close>

fun py_type_name :: "pyval \<Rightarrow> string" where
  "py_type_name PNone = ''NoneType''"
| "py_type_name (PBool b) = ''bool''"
| "py_type_name (PInt i) = ''int''"
| "py_type_name (PFloat r) = ''float''"
| "py_type_name (PStr s) = ''str''"
| "py_type_name (PList xs) = ''list''"
| "py_type_name (PTuple xs) = ''tuple''"
| "py_type_name (PDict kvs) = ''dict''"

text \<open>\<open>t.get\<close> on something that is not a dictionary.\<close>

definition no_get :: "pyval \<Rightarrow> pyexc" where
  "no_get t =
     \<lparr>kind = ExceptionK, type_name = ''AttributeError'',
      text_of = [CHR 0x27] @ py_type_name t @ [CHR 0x27] @ '' object has no attribute ''
                @ [CHR 0x27] @ ''get'' @ [CHR 0x27]\<rparr>"

text \<open>\<open>d.get(key, default)\<close>.\<close>

definition get_or :: "(string \<times> pyval) list \<Rightarrow> string \<Rightarrow> pyval \<Rightarrow> pyval" where
  "get_or kvs k d = (case map_of kvs k of Some v \<Rightarrow> v | None \<Rightarrow> d)"

text \<open>\<open>d.update(new)\<close>: a key already there keeps its place, a new key goes last.\<close>

definition dict_update ::
  "(string \<times> pyval) list \<Rightarrow> (string \<times> pyval) list \<Rightarrow> (string \<times> pyval) list" where
  "dict_update d new = fold (\<lambda>(k, v). AList.update k v) new d"

text \<open>\<open>f"ERROR: {type(e).__name__}: {e}"\<close>.\<close>

definition error_text :: "pyexc \<Rightarrow> string" where
  "error_text e = ''ERROR: '' @ type_name e @ '': '' @ text_of e"

text \<open>The scoring of lines 129 to 133.\<close>

definition score :: "pyval \<Rightarrow> pyval \<Rightarrow> bool" where
  "score got expected =
     (case expected of
        PList es \<Rightarrow> list_ex (\<lambda>e. py_eq got e) es
      | _ \<Rightarrow> py_eq got expected)"

text \<open>The call of line 128 for the test dictionary \<open>kvs\<close>.\<close>

definition test_call :: "pyfun \<Rightarrow> nat \<Rightarrow> (string \<times> pyval) list \<Rightarrow> call_result" where
  "test_call fn idx kvs =
     fn idx (get_or kvs ''args'' (PList [])) (get_or kvs ''kwargs'' (PDict []))
        (get_or kvs ''expected'' PNone)"

text \<open>
  The body of the loop over the tests: \<open>Returned item\<close> when the body reaches
  \<open>tests.append(item)\<close>, otherwise the way the body is left. The dictionary \<open>item\<close>
  holds the objects \<open>args\<close>, \<open>kwargs\<close> and \<open>expected\<close> themselves, so it shows them as
  the call has left them, and line 131 or 133 compares with \<open>expected\<close> as the call has
  left it. An exception that is an instance of \<open>Exception\<close> raised by the call is
  caught by the inner \<open>except\<close>.
\<close>

definition run_one :: "pyfun \<Rightarrow> nat \<Rightarrow> pyval \<Rightarrow> pyval outcome" where
  "run_one fn idx t =
     (case t of
        PDict kvs \<Rightarrow>
          (let c = test_call fn idx kvs;
               item = [(''index'', PInt (int idx)), (''args'', args_after c),
                       (''kwargs'', kwargs_after c), (''expected'', expected_after c)]
           in case ending c of
                Returned got \<Rightarrow>
                  Returned (PDict (dict_update item
                    [(''ok'', PBool (score got (expected_after c))), (''got'', got),
                     (''error'', PNone)]))
              | Raised e \<Rightarrow>
                  if is_Exception e
                  then Returned (PDict (dict_update item
                    [(''ok'', PBool False), (''got'', PNone), (''error'', PStr (error_text e))]))
                  else Raised e
              | Killed \<Rightarrow> Killed
              | Hangs \<Rightarrow> Hangs
              | Interferes \<Rightarrow> Interferes)
      | _ \<Rightarrow> Raised (no_get t))"

text \<open>
  The loop \<open>for idx, t in enumerate(problem["tests"], 1)\<close>: the list \<open>tests\<close> it
  builds, or the way it is left, and the calls it made.
\<close>

fun run_tests :: "pyfun \<Rightarrow> nat \<Rightarrow> pyval list \<Rightarrow> pyval list outcome \<times> event list" where
  "run_tests fn idx [] = (Returned [], [])"
| "run_tests fn idx (t # ts) =
     (case run_one fn idx t of
        Returned item \<Rightarrow>
          (case run_tests fn (Suc idx) ts of
             (Returned items, calls) \<Rightarrow> (Returned (item # items), CallFn idx # calls)
           | (Raised e, calls) \<Rightarrow> (Raised e, CallFn idx # calls)
           | (Killed, calls) \<Rightarrow> (Killed, CallFn idx # calls)
           | (Hangs, calls) \<Rightarrow> (Hangs, CallFn idx # calls)
           | (Interferes, calls) \<Rightarrow> (Interferes, CallFn idx # calls))
      | Raised e \<Rightarrow> (Raised e, (case t of PDict kvs \<Rightarrow> [CallFn idx] | _ \<Rightarrow> []))
      | Killed \<Rightarrow> (Killed, [CallFn idx])
      | Hangs \<Rightarrow> (Hangs, [CallFn idx])
      | Interferes \<Rightarrow> (Interferes, [CallFn idx]))"

definition is_ok_item :: "pyval \<Rightarrow> bool" where
  "is_ok_item item = (dict_get item ''ok'' = Some (PBool True))"

text \<open>The dictionary of lines 140 to 148.\<close>

definition ok_result :: "pyval list \<Rightarrow> real \<Rightarrow> pyval" where
  "ok_result items elapsed =
     PDict [(''status'', PStr ''ok''),
            (''tests'', PList items),
            (''elapsed'', PFloat elapsed),
            (''summary'', PDict [(''total'', PInt (int (length items))),
                                 (''passed'', PInt (int (length (filter is_ok_item items))))])]"

definition error_result :: "string \<Rightarrow> pyval" where
  "error_result msg = PDict [(''status'', PStr ''error''), (''error'', PStr msg)]"

definition not_defined :: "string \<Rightarrow> string" where
  "not_defined fname = ''Function '' @ [CHR 0x27] @ fname @ [CHR 0x27] @ '' is not defined''"

text \<open>
  The \<open>try\<close> block of \<open>_execute\<close> up to the call of \<open>out_q.put\<close> in line 140:
  \<open>Returned r\<close> when it reaches that call with the dictionary \<open>r\<close>, otherwise the way
  it is left; and what ran.
\<close>

definition try_block :: "runtime \<Rightarrow> problem \<Rightarrow> string \<Rightarrow> int \<Rightarrow> pyval outcome \<times> event list" where
  "try_block rt p code mem_limit_mb =
     (let limits = limit_resources mem_limit_mb
      in case ensure_safe (ast_parse rt) code of
           Inl e \<Rightarrow> (Raised e, limits)
         | Inr u \<Rightarrow>
             (let evs = limits @ [ExecCode code initial_ns]
              in case exec_code rt code initial_ns of
                   Raised e \<Rightarrow> (Raised e, evs)
                 | Killed \<Rightarrow> (Killed, evs)
                 | Hangs \<Rightarrow> (Hangs, evs)
                 | Interferes \<Rightarrow> (Interferes, evs)
                 | Returned ns \<Rightarrow>
                     (case ns (function_name p) of
                        None \<Rightarrow> (Raised (SecurityError (not_defined (function_name p))), evs)
                      | Some fn \<Rightarrow>
                          (case run_tests fn 1 (tests p) of
                             (Returned items, calls) \<Rightarrow>
                               (Returned (ok_result items (elapsed_rounded rt)), evs @ calls)
                           | (Raised e, calls) \<Rightarrow> (Raised e, evs @ calls)
                           | (Killed, calls) \<Rightarrow> (Killed, evs @ calls)
                           | (Hangs, calls) \<Rightarrow> (Hangs, evs @ calls)
                           | (Interferes, calls) \<Rightarrow> (Interferes, evs @ calls)))))"

text \<open>
  The \<open>out_q.put\<close> of a handler (lines 150 and 152). When it raises, the exception
  leaves \<open>_execute\<close> and the process ends with nothing written.
\<close>

definition handler_put :: "runtime \<Rightarrow> pyval \<Rightarrow> event list \<Rightarrow> child" where
  "handler_put rt r evs =
     (case send rt r of
        Sent v \<Rightarrow> \<lparr>queue = [Readable v], trace = evs, exits = True\<rparr>
      | PutRaises e \<Rightarrow> \<lparr>queue = [], trace = evs, exits = True\<rparr>
      | Lost \<Rightarrow> \<lparr>queue = [], trace = evs, exits = True\<rparr>
      | Stuck \<Rightarrow> \<lparr>queue = [], trace = evs, exits = False\<rparr>)"

text \<open>
  The two handlers of \<open>_execute\<close>, for an exception raised in the \<open>try\<close> block. An
  exception that neither handler catches ends the process with nothing written.
\<close>

definition handlers :: "runtime \<Rightarrow> pyexc \<Rightarrow> event list \<Rightarrow> child" where
  "handlers rt e evs =
     (case kind e of
        SecurityErrorK \<Rightarrow> handler_put rt (error_result (text_of e)) evs
      | ExceptionK \<Rightarrow> handler_put rt (error_result (error_text e)) evs
      | BaseOnlyK \<Rightarrow> \<lparr>queue = [], trace = evs, exits = True\<rparr>)"

text \<open>
  \<open>_execute\<close>: the \<open>try\<close> block, the \<open>put\<close> of line 140, which is inside the
  \<open>try\<close>, and the handlers.
\<close>

definition execute :: "runtime \<Rightarrow> problem \<Rightarrow> string \<Rightarrow> int \<Rightarrow> child" where
  "execute rt p code mem_limit_mb =
     (case try_block rt p code mem_limit_mb of
        (Returned r, evs) \<Rightarrow>
          (case send rt r of
             Sent v \<Rightarrow> \<lparr>queue = [Readable v], trace = evs, exits = True\<rparr>
           | PutRaises e \<Rightarrow> handlers rt e evs
           | Lost \<Rightarrow> \<lparr>queue = [], trace = evs, exits = True\<rparr>
           | Stuck \<Rightarrow> \<lparr>queue = [], trace = evs, exits = False\<rparr>)
      | (Raised e, evs) \<Rightarrow> handlers rt e evs
      | (Killed, evs) \<Rightarrow> \<lparr>queue = [], trace = evs, exits = True\<rparr>
      | (Hangs, evs) \<Rightarrow> \<lparr>queue = [], trace = evs, exits = False\<rparr>
      | (Interferes, evs) \<Rightarrow> takeover rt)"


section \<open>The supervisor\<close>

text \<open>
  What the parent does with the child process and the channel, in order. Creating the
  queue, starting, joining and terminating the process are taken to succeed.
\<close>

datatype action = Start | Join real | IsAlive | Terminate | GetNowait

text \<open>
  \<open>proc.is_alive()\<close> after \<open>proc.join(timeout=time_limit)\<close>: a child that never exits
  is alive, and one that exits is alive when its exit comes after the wait.
\<close>

definition is_alive :: "runtime \<Rightarrow> child \<Rightarrow> real \<Rightarrow> bool" where
  "is_alive rt c time_limit = (if exits c then time_limit < wall_time rt else True)"

definition tle_result :: pyval where
  "tle_result = PDict [(''status'', PStr ''tle''), (''error'', PStr ''Time Limit Exceeded'')]"

text \<open>
  \<open>run_in_subprocess\<close>: the value returned (\<open>Inr\<close>) or the exception raised
  (\<open>Inl\<close>), and the actions taken. Only \<open>queue.Empty\<close> is caught around
  \<open>q.get_nowait()\<close>: an exception raised while the message is unpickled leaves the
  function.
\<close>

definition run_in_subprocess ::
  "runtime \<Rightarrow> problem \<Rightarrow> string \<Rightarrow> real \<Rightarrow> int \<Rightarrow> (pyexc + pyval) \<times> action list" where
  "run_in_subprocess rt p code time_limit mem_limit_mb =
     (let proc = execute rt p code mem_limit_mb
      in if is_alive rt proc time_limit
         then (Inr tle_result, [Start, Join time_limit, IsAlive, Terminate, Join (1 / 10)])
         else (case queue proc of
                 [] \<Rightarrow> (Inr (error_result ''No result returned''),
                        [Start, Join time_limit, IsAlive, GetNowait])
               | Readable r # rest \<Rightarrow> (Inr r, [Start, Join time_limit, IsAlive, GetNowait])
               | Unreadable e # rest \<Rightarrow> (Inl e, [Start, Join time_limit, IsAlive, GetNowait])))"

text \<open>The call with the default \<open>time_limit\<close> and \<open>mem_limit_mb\<close>.\<close>

definition run_in_subprocess_default ::
  "runtime \<Rightarrow> problem \<Rightarrow> string \<Rightarrow> (pyexc + pyval) \<times> action list" where
  "run_in_subprocess_default rt p code = run_in_subprocess rt p code 2 128"


section \<open>Notions used to state the properties\<close>

text \<open>All nodes of a tree, the node itself first.\<close>

fun nodes :: "node \<Rightarrow> node list" where
  "nodes (Node ty cs) = Node ty cs # concat (map nodes cs)"

fun is_import :: "node \<Rightarrow> bool" where
  "is_import (Node Import cs) = True"
| "is_import (Node ImportFrom cs) = True"
| "is_import (Node ty cs) = False"

definition has_import :: "node \<Rightarrow> bool" where
  "has_import tree = list_ex is_import (nodes tree)"

fun is_dunder_attribute :: "node \<Rightarrow> bool" where
  "is_dunder_attribute (Node (Attribute attr) cs) = startswith attr ''__''"
| "is_dunder_attribute (Node ty cs) = False"

definition has_dunder_attribute :: "node \<Rightarrow> bool" where
  "has_dunder_attribute tree = list_ex is_dunder_attribute (nodes tree)"

text \<open>The messages with which the vettor rejects a tree.\<close>

definition security_messages :: "string list" where
  "security_messages =
     [''Import statements are not allowed'', ''Access to dunder attributes is not allowed'']
     @ map usage_message denied_names"

text \<open>
  A piece of submitted code that comes back to the grader: it returns, or it raises an
  instance of \<open>Exception\<close>.
\<close>

fun comes_back :: "'a outcome \<Rightarrow> bool" where
  "comes_back (Returned v) = True"
| "comes_back (Raised e) = is_Exception e"
| "comes_back Killed = False"
| "comes_back Hangs = False"
| "comes_back Interferes = False"

text \<open>The events that hand code to \<open>exec\<close>.\<close>

fun is_exec :: "event \<Rightarrow> bool" where
  "is_exec (ExecCode c ns) = True"
| "is_exec e = False"

text \<open>
  Following the spec's words for the safe namespace: the names the spec lists as
  capable of importing modules, opening files or running code dynamically, the
  built-ins that resolve an attribute from its name, and the built-in that writes output.
\<close>

definition spec_import_eval_open :: "string list" where
  "spec_import_eval_open = [''__import__'', ''eval'', ''exec'', ''open'']"

definition spec_attribute_resolvers :: "string list" where
  "spec_attribute_resolvers = [''getattr'', ''hasattr'', ''setattr'', ''delattr'']"

definition spec_output_operations :: "string list" where
  "spec_output_operations = [''print'']"


section \<open>Examples\<close>

text \<open>The problem \<open>two_sum\<close> of the problem bank, with its three tests.\<close>

definition two_sum_problem :: problem where
  "two_sum_problem =
     \<lparr>function_name = ''two_sum'',
      tests =
        [PDict [(''args'', PList [PList [PInt 2, PInt 7, PInt 11, PInt 15], PInt 9]),
                (''kwargs'', PDict []),
                (''expected'', PList [PList [PInt 0, PInt 1], PList [PInt 1, PInt 0]])],
         PDict [(''args'', PList [PList [PInt 3, PInt 2, PInt 4], PInt 6]),
                (''kwargs'', PDict []),
                (''expected'', PList [PList [PInt 1, PInt 2], PList [PInt 2, PInt 1]])],
         PDict [(''args'', PList [PList [PInt 3, PInt 3], PInt 6]),
                (''kwargs'', PDict []),
                (''expected'', PList [PList [PInt 0, PInt 1], PList [PInt 1, PInt 0]])]]\<rparr>"

text \<open>A problem whose second test entry is not a dictionary.\<close>

definition non_dict_problem :: problem where
  "non_dict_problem =
     \<lparr>function_name = ''two_sum'',
      tests =
        [PDict [(''args'', PList [PList [PInt 2, PInt 7, PInt 11, PInt 15], PInt 9]),
                (''kwargs'', PDict []),
                (''expected'', PList [PList [PInt 0, PInt 1], PList [PInt 1, PInt 0]])],
         PInt 5]\<rparr>"

text \<open>
  A runtime for the examples: the submission parses to \<open>tree\<close>, running it binds
  \<open>fname\<close> to \<open>fn\<close>, the child needs three tenths of a second, a \<open>put\<close> comes to
  what \<open>put\<close> says, and an interfering submission leaves on the channel one message
  that cannot be unpickled.
\<close>

definition value_error :: pyexc where
  "value_error = \<lparr>kind = ExceptionK, type_name = ''ValueError'', text_of = ''boom''\<rparr>"

definition base_exception :: pyexc where
  "base_exception = \<lparr>kind = BaseOnlyK, type_name = ''BaseException'', text_of = ''boom''\<rparr>"

definition runtime_error :: pyexc where
  "runtime_error =
     \<lparr>kind = ExceptionK, type_name = ''RuntimeError'', text_of = ''cannot start new thread''\<rparr>"

definition sample_runtime :: "node \<Rightarrow> string \<Rightarrow> pyfun \<Rightarrow> (pyval \<Rightarrow> sending) \<Rightarrow> runtime" where
  "sample_runtime tree fname fn put =
     \<lparr>ast_parse = (\<lambda>code. Tree tree),
      exec_code = (\<lambda>code ns. Returned [fname \<mapsto> fn]),
      elapsed_rounded = 1 / 1000,
      wall_time = 3 / 10,
      send = put,
      takeover = \<lparr>queue = [Unreadable value_error], trace = [], exits = True\<rparr>\<rparr>"

text \<open>
  A function that answers its three calls with the given outcomes and leaves the
  objects of the test as they are.
\<close>

definition three_calls :: "pyval outcome \<Rightarrow> pyval outcome \<Rightarrow> pyval outcome \<Rightarrow> pyfun" where
  "three_calls r1 r2 r3 =
     (\<lambda>idx a k e. \<lparr>ending = (if idx = 1 then r1 else if idx = 2 then r2 else r3),
                    args_after = a, kwargs_after = k, expected_after = e\<rparr>)"

text \<open>
  A function that returns \<open>''x''\<close> on every call after it has appended \<open>''x''\<close> to the
  list \<open>expected\<close> of the test, which it reaches through the frame of its caller.
\<close>

definition appending_calls :: pyfun where
  "appending_calls =
     (\<lambda>idx a k e. \<lparr>ending = Returned (PStr ''x''), args_after = a, kwargs_after = k,
                    expected_after = (case e of PList es \<Rightarrow> PList (es @ [PStr ''x'']) | v \<Rightarrow> v)\<rparr>)"

text \<open>The tree of a module that defines one function and uses two names.\<close>

definition plain_tree :: node where
  "plain_tree = Node Other [Node Other [Node (Name ''enumerate'') [], Node (Name ''nums'') []]]"

text \<open>The tree of \<open>def two_sum(nums, target): import os\<close>.\<close>

definition import_tree :: node where
  "import_tree = Node Other [Node Other [Node Other [], Node Import [Node Other []]]]"

text \<open>The tree of a module whose only statement is \<open>x.__class__\<close>.\<close>

definition dunder_tree :: node where
  "dunder_tree =
     Node Other [Node Other [Node (Attribute ''__class__'')
                               [Node (Name ''x'') [Node Other []], Node Other []]]]"

text \<open>
  Functions for the problem \<open>two_sum\<close>: one that answers every test correctly, one that
  raises \<open>ValueError\<close> on the second test, one that raises a \<open>BaseException\<close> there,
  one that returns the whole list of acceptable answers on the first test, one that
  takes the child process down on the second test, and one that interferes on the first.
\<close>

definition correct_calls :: pyfun where
  "correct_calls = three_calls (Returned (PList [PInt 0, PInt 1])) (Returned (PList [PInt 1, PInt 2]))
      (Returned (PList [PInt 1, PInt 0]))"

definition raising_calls :: pyfun where
  "raising_calls = three_calls (Returned (PList [PInt 0, PInt 1])) (Raised value_error)
      (Returned (PList [PInt 1, PInt 0]))"

definition base_raising_calls :: pyfun where
  "base_raising_calls = three_calls (Returned (PList [PInt 0, PInt 1])) (Raised base_exception)
      (Returned (PList [PInt 1, PInt 0]))"

definition whole_list_calls :: pyfun where
  "whole_list_calls =
     three_calls (Returned (PList [PList [PInt 0, PInt 1], PList [PInt 1, PInt 0]]))
       (Returned (PList [PInt 1, PInt 2])) (Returned (PList [PInt 1, PInt 0]))"

definition killed_calls :: pyfun where
  "killed_calls = three_calls (Returned (PList [PInt 0, PInt 1])) Killed Killed"

definition interfering_calls :: pyfun where
  "interfering_calls = three_calls Interferes Interferes Interferes"

text \<open>Three ways a \<open>put\<close> can go, whatever the value.\<close>

definition delivers :: "pyval \<Rightarrow> sending" where
  "delivers r = Sent r"

definition put_fails :: "pyval \<Rightarrow> sending" where
  "put_fails r = PutRaises runtime_error"

definition put_sticks :: "pyval \<Rightarrow> sending" where
  "put_sticks r = Stuck"


section \<open>Lemmas on the vettor\<close>

text \<open>The walk visits every node of the tree, so a node that fails a check is found.\<close>

lemma set_walk: "set (walk q) = (\<Union>n\<in>set q. set (nodes n))"
  by (induction q rule: walk.induct) auto

lemma first_violation_finds:
  "n \<in> set ns \<Longrightarrow> check_node n \<noteq> None \<Longrightarrow> \<exists>m. first_violation ns = Some m"
  by (induction ns) (auto split: option.splits)

lemma first_violation_origin:
  "first_violation ns = Some m \<Longrightarrow> \<exists>n\<in>set ns. check_node n = Some m"
  by (induction ns) (auto split: option.splits)

lemma check_node_message: "check_node n = Some m \<Longrightarrow> m \<in> set security_messages"
  by (cases n rule: check_node.cases) (auto simp: security_messages_def split: if_splits)

lemma is_import_check: "is_import n \<Longrightarrow> check_node n \<noteq> None"
  by (cases n rule: is_import.cases) auto

lemma is_dunder_check: "is_dunder_attribute n \<Longrightarrow> check_node n \<noteq> None"
  by (cases n rule: is_dunder_attribute.cases) auto

lemma vettor_rejects:
  assumes "ast_parse rt code = Tree tree" and "n \<in> set (nodes tree)" and "check_node n \<noteq> None"
  shows "\<exists>m. m \<in> set security_messages \<and> ensure_safe (ast_parse rt) code = Inl (SecurityError m)"
proof -
  from assms(2) have "n \<in> set (walk [tree])"
    by (simp add: set_walk)
  with assms(3) obtain m where m: "first_violation (walk [tree]) = Some m"
    using first_violation_finds by blast
  then have "m \<in> set security_messages"
    using first_violation_origin check_node_message by blast
  moreover from m assms(1) have "ensure_safe (ast_parse rt) code = Inl (SecurityError m)"
    by (simp add: ensure_safe_def)
  ultimately show ?thesis by blast
qed


section \<open>Facts about the examples\<close>

text \<open>The definitions to unfold when a run is evaluated on an example.\<close>

lemmas example_defs =
  execute_def try_block_def ensure_safe_def sample_runtime_def plain_tree_def
  denied_names_def initial_ns_def limit_resources_def two_sum_problem_def run_one_def
  test_call_def get_or_def three_calls_def dict_update_def score_def is_Exception_def
  value_error_def base_exception_def ok_result_def error_result_def is_ok_item_def
  dict_get_def error_text_def run_in_subprocess_def is_alive_def tle_result_def
  SecurityError_def handler_put_def handlers_def delivers_def put_fails_def put_sticks_def
  runtime_error_def Let_def

lemma py_eq_examples:
  "py_eq (PBool True) (PInt 1)"
  "py_eq (PInt 1) (PFloat 1)"
  "\<not> py_eq (PTuple [PInt 0, PInt 1]) (PList [PInt 0, PInt 1])"
  "py_eq (PList [PInt 1, PInt 0]) (PList [PInt 1, PInt 0])"
  "\<not> py_eq (PList [PInt 1, PInt 0]) (PList [PInt 0, PInt 1])"
  "py_eq (PDict [(''a'', PInt 1), (''b'', PNone)]) (PDict [(''b'', PNone), (''a'', PInt 1)])"
  "\<not> py_eq (PStr ''1'') (PInt 1)"
  by simp_all

section \<open>The claims\<close>

text \<open>
  Claim C3. When the child process is still alive after the parent has waited
  \<open>time_limit\<close> seconds, the parent terminates it, waits a tenth of a second, and
  returns \<open>{"status": "tle", "error": "Time Limit Exceeded"}\<close>; the channel is not read,
  whatever it holds. The same holds for the call with the default limits, two seconds
  and 128 megabytes.
\<close>

theorem alive_after_deadline_is_tle:
  assumes "is_alive rt (execute rt p code mem) time_limit"
  shows "run_in_subprocess rt p code time_limit mem =
           (Inr (PDict [(''status'', PStr ''tle''), (''error'', PStr ''Time Limit Exceeded'')]),
            [Start, Join time_limit, IsAlive, Terminate, Join (1 / 10)])
         \<and> GetNowait \<notin> set (snd (run_in_subprocess rt p code time_limit mem))
         \<and> (time_limit = 2 \<and> mem = 128 \<longrightarrow>
               run_in_subprocess_default rt p code =
                 (Inr (PDict [(''status'', PStr ''tle''), (''error'', PStr ''Time Limit Exceeded'')]),
                  [Start, Join 2, IsAlive, Terminate, Join (1 / 10)]))"
  using assms by (auto simp: run_in_subprocess_def run_in_subprocess_default_def tle_result_def)

theorem alive_after_deadline_is_tle_witness:
  "is_alive (sample_runtime plain_tree ''two_sum'' (three_calls Hangs Hangs Hangs) delivers)
     (execute (sample_runtime plain_tree ''two_sum'' (three_calls Hangs Hangs Hangs) delivers)
        two_sum_problem ''code'' 128) 2
   \<and> run_in_subprocess_default
        (sample_runtime plain_tree ''two_sum'' (three_calls Hangs Hangs Hangs) delivers)
        two_sum_problem ''code'' =
       (Inr (PDict [(''status'', PStr ''tle''), (''error'', PStr ''Time Limit Exceeded'')]),
        [Start, Join 2, IsAlive, Terminate, Join (1 / 10)])
   \<and> queue (execute (sample_runtime plain_tree ''two_sum'' correct_calls delivers)
        two_sum_problem ''code'' 128) \<noteq> []
   \<and> run_in_subprocess (sample_runtime plain_tree ''two_sum'' correct_calls delivers)
        two_sum_problem ''code'' (1 / 10) 128 =
       (Inr (PDict [(''status'', PStr ''tle''), (''error'', PStr ''Time Limit Exceeded'')]),
        [Start, Join (1 / 10), IsAlive, Terminate, Join (1 / 10)])"
proof -
  let ?hang = "sample_runtime plain_tree ''two_sum'' (three_calls Hangs Hangs Hangs) delivers"
  let ?late = "sample_runtime plain_tree ''two_sum'' correct_calls delivers"
  have h1: "is_alive ?hang (execute ?hang two_sum_problem ''code'' 128) 2"
    by (simp add: example_defs)
  have h2: "is_alive ?late (execute ?late two_sum_problem ''code'' 128) (1 / 10)"
    by (simp add: example_defs correct_calls_def)
  have q: "queue (execute ?late two_sum_problem ''code'' 128) \<noteq> []"
    by (simp add: example_defs correct_calls_def)
  from alive_after_deadline_is_tle [OF h1] alive_after_deadline_is_tle [OF h2] h1 q
  show ?thesis by simp
qed

text \<open>
  Claim C8. When the child process is no longer alive after the wait and the channel is
  empty, the parent reads the channel without blocking and returns
  \<open>{"status": "error", "error": "No result returned"}\<close>.
\<close>

theorem empty_channel_is_error:
  assumes "\<not> is_alive rt (execute rt p code mem) time_limit"
    and "queue (execute rt p code mem) = []"
  shows "run_in_subprocess rt p code time_limit mem =
           (Inr (PDict [(''status'', PStr ''error''), (''error'', PStr ''No result returned'')]),
            [Start, Join time_limit, IsAlive, GetNowait])"
  using assms by (simp add: run_in_subprocess_def error_result_def)

theorem empty_channel_is_error_witness:
  "\<not> is_alive (sample_runtime plain_tree ''two_sum'' killed_calls delivers)
       (execute (sample_runtime plain_tree ''two_sum'' killed_calls delivers)
          two_sum_problem ''code'' 128) 2
   \<and> execute (sample_runtime plain_tree ''two_sum'' killed_calls delivers)
        two_sum_problem ''code'' 128
     = \<lparr>queue = [],
        trace = [SetRLimit ''RLIMIT_CPU'' 3 3, SetRLimit ''RLIMIT_AS'' 134217728 134217728,
                 ExecCode ''code'' initial_ns, CallFn 1, CallFn 2],
        exits = True\<rparr>
   \<and> run_in_subprocess (sample_runtime plain_tree ''two_sum'' killed_calls delivers)
        two_sum_problem ''code'' 2 128 =
       (Inr (PDict [(''status'', PStr ''error''), (''error'', PStr ''No result returned'')]),
        [Start, Join 2, IsAlive, GetNowait])"
proof -
  let ?rt = "sample_runtime plain_tree ''two_sum'' killed_calls delivers"
  have ex: "execute ?rt two_sum_problem ''code'' 128
     = \<lparr>queue = [],
        trace = [SetRLimit ''RLIMIT_CPU'' 3 3, SetRLimit ''RLIMIT_AS'' 134217728 134217728,
                 ExecCode ''code'' initial_ns, CallFn 1, CallFn 2],
        exits = True\<rparr>"
    by (simp add: example_defs killed_calls_def)
  then have h1: "\<not> is_alive ?rt (execute ?rt two_sum_problem ''code'' 128) 2"
    by (simp add: is_alive_def sample_runtime_def)
  from ex have h2: "queue (execute ?rt two_sum_problem ''code'' 128) = []"
    by simp
  from empty_channel_is_error [OF h1 h2] h1 ex show ?thesis by simp
qed

end
